theory Spec2Isabelle
  imports Complex_Main
begin

section \<open>Calendar dates\<close>

text \<open>
  The repository stores and compares calendar dates (Python's \<^verbatim>\<open>datetime.date\<close>).
  A date is its year, month and day; comparison is the comparison of the triples, and
  day arithmetic goes through the proleptic Gregorian ordinal, as the standard library
  computes it (\<^verbatim>\<open>_ymd2ord\<close>, \<^verbatim>\<open>_ord2ymd\<close>).
\<close>

record date =
  year :: int
  month :: int
  day :: int

definition tuple_lt :: "int \<times> int \<Rightarrow> int \<times> int \<Rightarrow> bool" where
  "tuple_lt a b = (fst a < fst b \<or> (fst a = fst b \<and> snd a < snd b))"

definition date_lt :: "date \<Rightarrow> date \<Rightarrow> bool" where
  "date_lt a b =
     (year a < year b \<or> (year a = year b \<and> tuple_lt (month a, day a) (month b, day b)))"

definition date_le :: "date \<Rightarrow> date \<Rightarrow> bool" where
  "date_le a b = (\<not> date_lt b a)"

definition is_leap :: "int \<Rightarrow> bool" where
  "is_leap y = (y mod 4 = 0 \<and> (y mod 100 \<noteq> 0 \<or> y mod 400 = 0))"

definition days_before_year :: "int \<Rightarrow> int" where
  "days_before_year y =
     (let p = y - 1 in p * 365 + p div 4 - p div 100 + p div 400)"

definition DAYS_IN_MONTH :: "int list" where
  "DAYS_IN_MONTH = [-1, 31, 28, 31, 30, 31, 30, 31, 31, 30, 31, 30, 31]"

definition DAYS_BEFORE_MONTH :: "int list" where
  "DAYS_BEFORE_MONTH = [-1, 0, 31, 59, 90, 120, 151, 181, 212, 243, 273, 304, 334]"

definition days_before_month :: "int \<Rightarrow> int \<Rightarrow> int" where
  "days_before_month y m =
     DAYS_BEFORE_MONTH ! nat m + (if m > 2 \<and> is_leap y then 1 else 0)"

definition ymd2ord :: "int \<Rightarrow> int \<Rightarrow> int \<Rightarrow> int" where
  "ymd2ord y m d = days_before_year y + days_before_month y m + d"

definition toordinal :: "date \<Rightarrow> int" where
  "toordinal d = ymd2ord (year d) (month d) (day d)"

definition ord2ymd :: "int \<Rightarrow> date" where
  "ord2ymd n0 =
     (let n = n0 - 1;
          n400 = n div 146097; n = n mod 146097;
          y = n400 * 400 + 1;
          n100 = n div 36524; n = n mod 36524;
          n4 = n div 1461; n = n mod 1461;
          n1 = n div 365; n = n mod 365;
          y = y + n100 * 100 + n4 * 4 + n1
      in if n1 = 4 \<or> n100 = 4 then \<lparr>year = y - 1, month = 12, day = 31\<rparr>
         else
           let leapyear = (n1 = 3 \<and> (n4 \<noteq> 24 \<or> n100 = 3));
               m = (n + 50) div 32;
               preceding = DAYS_BEFORE_MONTH ! nat m + (if m > 2 \<and> leapyear then 1 else 0)
           in if preceding > n
              then let m' = m - 1;
                       preceding' = preceding -
                         (DAYS_IN_MONTH ! nat m' + (if m' = 2 \<and> leapyear then 1 else 0))
                   in \<lparr>year = y, month = m', day = n - preceding' + 1\<rparr>
              else \<lparr>year = y, month = m, day = n - preceding + 1\<rparr>)"

text \<open>
  \<^verbatim>\<open>today - timedelta(days=k)\<close>. The library raises OverflowError when the result
  leaves the years 1 to 9999; that is \<open>None\<close> here.
\<close>

definition MAXORDINAL :: int where
  "MAXORDINAL = 3652059"

definition date_minus_days :: "date \<Rightarrow> int \<Rightarrow> date option" where
  "date_minus_days d k =
     (let o' = toordinal d - k
      in if 0 < o' \<and> o' \<le> MAXORDINAL then Some (ord2ymd o') else None)"

text \<open>\<^verbatim>\<open>str(date)\<close>: the ISO form, year padded to four digits, month and day to two.\<close>

fun digits :: "nat \<Rightarrow> string" where
  "digits n =
     (if n < 10 then [''0123456789'' ! n]
      else digits (n div 10) @ [''0123456789'' ! (n mod 10)])"

definition zero_pad :: "nat \<Rightarrow> int \<Rightarrow> string" where
  "zero_pad w n = (let s = digits (nat n) in replicate (w - length s) (CHR ''0'') @ s)"

definition isoformat :: "date \<Rightarrow> string" where
  "isoformat d = zero_pad 4 (year d) @ ''-'' @ zero_pad 2 (month d) @ ''-'' @ zero_pad 2 (day d)"

text \<open>
  A date column handed a \<^verbatim>\<open>datetime\<close> keeps a date of it. The value carries its own
  calendar fields and offset from UTC in minutes (\<open>None\<close> when naive), from which
  \<^verbatim>\<open>str\<close> prints it, and the calendar date of the instant in the server's time
  zone, a setting, which is the date the column keeps.
\<close>

record datetime =
  dt_date :: date
  dt_hour :: int
  dt_minute :: int
  dt_second :: int
  dt_microsecond :: int
  dt_utcoffset :: "int option"
  dt_local_date :: date

definition datetime_str :: "datetime \<Rightarrow> string" where
  "datetime_str t =
     isoformat (dt_date t) @ '' '' @ zero_pad 2 (dt_hour t) @ '':'' @ zero_pad 2 (dt_minute t)
     @ '':'' @ zero_pad 2 (dt_second t)
     @ (if dt_microsecond t \<noteq> 0 then ''.'' @ zero_pad 6 (dt_microsecond t) else [])
     @ (case dt_utcoffset t of
          None \<Rightarrow> []
        | Some m \<Rightarrow> (if m < 0 then ''-'' else ''+'') @ zero_pad 2 (\<bar>m\<bar> div 60) @ '':''
                      @ zero_pad 2 (\<bar>m\<bar> mod 60))"

text \<open>What the attribute of a date column can hold on an instance in memory.\<close>

datatype date_value = DateValue date | DateTimeValue datetime

definition str_date_value :: "date_value \<Rightarrow> string" where
  "str_date_value v = (case v of DateValue d \<Rightarrow> isoformat d | DateTimeValue t \<Rightarrow> datetime_str t)"

definition get_prep_value :: "date_value \<Rightarrow> date" where
  "get_prep_value v = (case v of DateValue d \<Rightarrow> d | DateTimeValue t \<Rightarrow> dt_local_date t)"

text \<open>
  The date attribute of a new activity: the date that was given or, when none was,
  the column default \<^verbatim>\<open>timezone.now\<close>, the current instant \<open>now\<close>.
\<close>

definition date_or_default :: "datetime \<Rightarrow> date option \<Rightarrow> date_value" where
  "date_or_default now given = (case given of Some d \<Rightarrow> DateValue d | None \<Rightarrow> DateTimeValue now)"

section \<open>Text\<close>

text \<open>
  A text is the list of its characters, over the first 256 code points.
  \<open>strip\<close> is \<^verbatim>\<open>str.strip()\<close>, which the framework applies to the value of
  every character field before any check: it removes the leading and trailing
  characters that Python counts as white space.
\<close>

definition whitespace :: "char list" where
  "whitespace = [CHR 0x09, CHR 0x0A, CHR 0x0B, CHR 0x0C, CHR 0x0D, CHR 0x1C, CHR 0x1D,
                 CHR 0x1E, CHR 0x1F, CHR 0x20, CHR 0x85, CHR 0xA0]"

definition strip :: "string \<Rightarrow> string" where
  "strip s = rev (dropWhile (\<lambda>c. c \<in> set whitespace) (rev (dropWhile (\<lambda>c. c \<in> set whitespace) s)))"

section \<open>User profiles\<close>

text \<open>
  \<^verbatim>\<open>users/models.py\<close>, class \<^verbatim>\<open>UserProfile\<close>. Decimal columns are exact rationals.
\<close>

record user_profile =
  date_of_birth :: "date option"
  gender :: "string option"
  height :: "rat option"
  weight :: "rat option"
  bio :: string
  profile_picture :: "string option"

text \<open>
  \<^verbatim>\<open>UserProfile.age\<close>. The clock (\<^verbatim>\<open>date.today()\<close>) is the first argument. The
  subtracted term is a Python bool, read as 0 or 1.
\<close>

definition age :: "date \<Rightarrow> user_profile \<Rightarrow> int option" where
  "age today p =
     (case date_of_birth p of
        Some dob \<Rightarrow>
          Some (year today - year dob -
                (if tuple_lt (month today, day today) (month dob, day dob) then 1 else 0))
      | None \<Rightarrow> None)"

section \<open>Activities\<close>

text \<open>
  \<^verbatim>\<open>activities/models.py\<close>, class \<^verbatim>\<open>Activity\<close>. The owner is held by primary key, a
  time of day is hour, minute and second, and the two timestamps the framework
  maintains are not part of the model. The type of the date attribute is a
  parameter: a row of the table, and an instance loaded from it, holds a date
  (\<open>activity\<close>); an instance built in memory holds a \<open>date_value\<close>, because the
  column's default is \<^verbatim>\<open>timezone.now\<close>, a \<^verbatim>\<open>datetime\<close>.
\<close>

type_synonym time_of_day = "nat \<times> nat \<times> nat"

record 'd activity_of =
  pk :: nat
  user :: nat
  activity_type :: string
  title :: string
  description :: string
  duration :: int
  distance :: "rat option"
  calories_burned :: "int option"
  intensity :: string
  date :: 'd
  start_time :: "time_of_day option"
  average_heart_rate :: "int option"
  max_heart_rate :: "int option"
  elevation_gain :: "rat option"
  location :: string

type_synonym activity = "date activity_of"

definition with_date :: "'e \<Rightarrow> 'd activity_of \<Rightarrow> 'e activity_of" where
  "with_date x a =
     \<lparr>pk = pk a, user = user a, activity_type = activity_type a, title = title a,
      description = description a, duration = duration a, distance = distance a,
      calories_burned = calories_burned a, intensity = intensity a, date = x,
      start_time = start_time a, average_heart_rate = average_heart_rate a,
      max_heart_rate = max_heart_rate a, elevation_gain = elevation_gain a,
      location = location a\<rparr>"

definition ACTIVITY_TYPE_CHOICES :: "(string \<times> string) list" where
  "ACTIVITY_TYPE_CHOICES =
     [(''RUNNING'', ''Running''), (''CYCLING'', ''Cycling''), (''SWIMMING'', ''Swimming''),
      (''WALKING'', ''Walking''), (''WEIGHTLIFTING'', ''Weightlifting''), (''YOGA'', ''Yoga''),
      (''HIIT'', ''HIIT''), (''CROSSFIT'', ''CrossFit''), (''BOXING'', ''Boxing''),
      (''ROWING'', ''Rowing''), (''PILATES'', ''Pilates''), (''DANCING'', ''Dancing''),
      (''HIKING'', ''Hiking''), (''BASKETBALL'', ''Basketball''), (''FOOTBALL'', ''Football''),
      (''TENNIS'', ''Tennis''), (''GOLF'', ''Golf''), (''OTHER'', ''Other'')]"

definition INTENSITY_CHOICES :: "(string \<times> string) list" where
  "INTENSITY_CHOICES =
     [(''LOW'', ''Low''), (''MODERATE'', ''Moderate''), (''HIGH'', ''High''),
      (''EXTREME'', ''Extreme'')]"

text \<open>
  \<^verbatim>\<open>get_activity_type_display()\<close>: the label of the stored value, and the stored value
  itself when it is not one of the choices.
\<close>

definition get_activity_type_display :: "'d activity_of \<Rightarrow> string" where
  "get_activity_type_display a =
     (case map_of ACTIVITY_TYPE_CHOICES (activity_type a) of
        Some label \<Rightarrow> label
      | None \<Rightarrow> activity_type a)"

subsection \<open>Pace and speed\<close>

text \<open>
  The two properties compute in binary floating point. The float operations they use
  are the parameter \<open>fl\<close>, so what is proved holds for whatever arithmetic is supplied:
  \<open>of_int_f\<close> converts an integer, \<open>of_decimal\<close> is \<^verbatim>\<open>float(Decimal)\<close>,
  \<open>int_truediv\<close> is \<^verbatim>\<open>/\<close> on two integers, \<open>fdiv\<close> is \<^verbatim>\<open>/\<close> on two floats and
  \<open>round2\<close> is \<^verbatim>\<open>round(x, 2)\<close>.
\<close>

record 'f float_ops =
  of_int_f :: "int \<Rightarrow> 'f"
  of_decimal :: "rat \<Rightarrow> 'f"
  int_truediv :: "int \<Rightarrow> int \<Rightarrow> 'f"
  fdiv :: "'f \<Rightarrow> 'f \<Rightarrow> 'f"
  round2 :: "'f \<Rightarrow> 'f"

text \<open>Truthiness of an optional Decimal: \<^verbatim>\<open>None\<close> and zero are false.\<close>

definition truthy_decimal :: "rat option \<Rightarrow> bool" where
  "truthy_decimal d = (case d of None \<Rightarrow> False | Some v \<Rightarrow> v \<noteq> 0)"

definition pace :: "'f float_ops \<Rightarrow> activity \<Rightarrow> 'f option" where
  "pace fl a =
     (if truthy_decimal (distance a) \<and> the (distance a) > 0
      then Some (round2 fl (fdiv fl (of_int_f fl (duration a)) (of_decimal fl (the (distance a)))))
      else None)"

definition speed :: "'f float_ops \<Rightarrow> activity \<Rightarrow> 'f option" where
  "speed fl a =
     (if truthy_decimal (distance a) \<and> duration a > 0
      then let hours = int_truediv fl (duration a) 60
           in Some (round2 fl (fdiv fl (of_decimal fl (the (distance a))) hours))
      else None)"

text \<open>Exact rational arithmetic, rounding half to even, as one instance of the operations.\<close>

definition round_half_even :: "rat \<Rightarrow> int" where
  "round_half_even x =
     (let f = \<lfloor>x\<rfloor>; r = x - of_int f
      in if r < 1 / 2 then f
         else if r > 1 / 2 then f + 1
         else if even f then f else f + 1)"

definition round2_rat :: "rat \<Rightarrow> rat" where
  "round2_rat x = of_int (round_half_even (x * 100)) / 100"

definition exact_ops :: "rat float_ops" where
  "exact_ops = \<lparr>of_int_f = of_int, of_decimal = (\<lambda>d. d),
                int_truediv = (\<lambda>a b. of_int a / of_int b),
                fdiv = (\<lambda>x y. x / y), round2 = round2_rat\<rparr>"

subsection \<open>Saving\<close>

text \<open>
  The table of activities is the list of its rows. \<open>row_of\<close> is the row the database
  keeps of an instance: the date column reduces the attribute to a date.
  \<open>Model_save\<close> is the framework's \<^verbatim>\<open>Model.save\<close>: the row with the instance's
  primary key is replaced, and a new row is added when there is none.
  \<open>Activity_save\<close> is \<^verbatim>\<open>Activity.save\<close>, which fills in the title first, from
  \<^verbatim>\<open>str\<close> of the date attribute as the instance holds it.
  \<open>Activity_objects_create\<close> is \<^verbatim>\<open>Activity.objects.create\<close>: the database
  assigns the next primary key.
\<close>

definition row_of :: "date_value activity_of \<Rightarrow> activity" where
  "row_of a = with_date (get_prep_value (date a)) a"

definition Model_save :: "date_value activity_of \<Rightarrow> activity list \<Rightarrow> activity list" where
  "Model_save a store =
     (if \<exists>r \<in> set store. pk r = pk a
      then map (\<lambda>r. if pk r = pk a then row_of a else r) store
      else store @ [row_of a])"

definition Activity_save ::
  "date_value activity_of \<Rightarrow> activity list \<Rightarrow> date_value activity_of \<times> activity list" where
  "Activity_save a store =
     (let a' = (if title a = []
                then a\<lparr>title := get_activity_type_display a @ '' - '' @ str_date_value (date a)\<rparr>
                else a)
      in (a', Model_save a' store))"

definition next_pk :: "activity list \<Rightarrow> nat" where
  "next_pk store = Suc (fold max (map pk store) 0)"

definition Activity_objects_create ::
  "date_value activity_of \<Rightarrow> activity list \<Rightarrow> date_value activity_of \<times> activity list" where
  "Activity_objects_create a store = Activity_save (a\<lparr>pk := next_pk store\<rparr>) store"

section \<open>Errors\<close>

text \<open>
  A response is either a value or one of the failures of the API: 401, 404, 400 with
  the offending fields, 500.
\<close>

datatype kind =
  FutureDate | HeartRateOrder | PasswordMismatch | DuplicateEmail | DuplicateUsername
  | InvalidPassword | MissingRequiredField | InvalidChoice | OutOfRange | TooLong
  | Blank | NullCharacter | InvalidUsername | InvalidEmail | InvalidURL

datatype error =
  AuthenticationRequired | NotFound | ValidationError "(string \<times> kind) list" | ServerError

section \<open>Activity serializers\<close>

text \<open>
  The submitted data of a write, after parsing: \<open>None\<close> is a key that was not sent;
  for a nullable column, \<open>Some None\<close> is an explicit null.
\<close>

record activity_attrs =
  a_activity_type :: "string option"
  a_title :: "string option"
  a_description :: "string option"
  a_duration :: "int option"
  a_distance :: "rat option option"
  a_calories_burned :: "int option option"
  a_intensity :: "string option"
  a_date :: "date option"
  a_start_time :: "time_of_day option option"
  a_average_heart_rate :: "int option option"
  a_max_heart_rate :: "int option option"
  a_elevation_gain :: "rat option option"
  a_location :: "string option"

definition no_attrs :: activity_attrs where
  "no_attrs = \<lparr>a_activity_type = None, a_title = None, a_description = None,
     a_duration = None, a_distance = None, a_calories_burned = None, a_intensity = None,
     a_date = None, a_start_time = None, a_average_heart_rate = None,
     a_max_heart_rate = None, a_elevation_gain = None, a_location = None\<rparr>"

text \<open>\<^verbatim>\<open>attrs.get(key)\<close>: a missing key and a null both give \<^verbatim>\<open>None\<close>.\<close>

definition attrs_get :: "'a option option \<Rightarrow> 'a option" where
  "attrs_get x = (case x of None \<Rightarrow> None | Some v \<Rightarrow> v)"

definition truthy_int :: "int option \<Rightarrow> bool" where
  "truthy_int x = (case x of None \<Rightarrow> False | Some v \<Rightarrow> v \<noteq> 0)"

subsection \<open>ActivitySerializer\<close>

definition ActivitySerializer_validate_date :: "date \<Rightarrow> date \<Rightarrow> error + date" where
  "ActivitySerializer_validate_date today v =
     (if date_lt today v then Inl (ValidationError [(''date'', FutureDate)]) else Inr v)"

definition ActivitySerializer_validate :: "activity_attrs \<Rightarrow> error + activity_attrs" where
  "ActivitySerializer_validate attrs =
     (let avg_hr = attrs_get (a_average_heart_rate attrs);
          max_hr = attrs_get (a_max_heart_rate attrs)
      in if truthy_int avg_hr \<and> truthy_int max_hr \<and> the avg_hr > the max_hr
         then Inl (ValidationError [(''average_heart_rate'', HeartRateOrder)])
         else Inr attrs)"

subsection \<open>ActivityCreateSerializer\<close>

text \<open>
  The serializer declares no check of its own. What it rejects are the per-field
  rules the framework reads off the model's columns: a required column that is
  missing (unless the update is partial), a value outside the choices, a number
  outside the validators' bounds, a decimal that does not fit the column, a text
  that after trimming is too long or holds a null character. The three text columns
  may be blank. The upper end of an integer column without a maximum validator is
  the database's and is left open. The validated data carries the trimmed texts.
\<close>

definition required_field :: "bool \<Rightarrow> string \<Rightarrow> 'a option \<Rightarrow> (string \<times> kind) list" where
  "required_field partial name v =
     (if v = None \<and> \<not> partial then [(name, MissingRequiredField)] else [])"

definition choice_field :: "string \<Rightarrow> (string \<times> string) list \<Rightarrow> string option \<Rightarrow> (string \<times> kind) list" where
  "choice_field name choices v =
     (case v of None \<Rightarrow> []
      | Some c \<Rightarrow> if c \<in> set (map fst choices) then [] else [(name, InvalidChoice)])"

definition int_field :: "string \<Rightarrow> int \<Rightarrow> int option \<Rightarrow> int option \<Rightarrow> (string \<times> kind) list" where
  "int_field name lo hi v =
     (case v of None \<Rightarrow> []
      | Some n \<Rightarrow> if lo \<le> n \<and> (case hi of None \<Rightarrow> True | Some h \<Rightarrow> n \<le> h) then []
                  else [(name, OutOfRange)])"

definition decimal_field :: "string \<Rightarrow> rat \<Rightarrow> rat option \<Rightarrow> (string \<times> kind) list" where
  "decimal_field name limit v =
     (case v of None \<Rightarrow> []
      | Some d \<Rightarrow> if 0 \<le> d \<and> d < limit \<and> of_int \<lfloor>d * 100\<rfloor> = d * 100 then []
                  else [(name, OutOfRange)])"

definition char_field :: "string \<Rightarrow> nat option \<Rightarrow> string option \<Rightarrow> (string \<times> kind) list" where
  "char_field name max_length v =
     (case v of None \<Rightarrow> []
      | Some s \<Rightarrow>
          (case max_length of
             None \<Rightarrow> []
           | Some n \<Rightarrow> if length (strip s) \<le> n then [] else [(name, TooLong)])
          @ (if CHR 0x00 \<in> set (strip s) then [(name, NullCharacter)] else []))"

definition ActivityCreateSerializer_errors :: "bool \<Rightarrow> activity_attrs \<Rightarrow> (string \<times> kind) list" where
  "ActivityCreateSerializer_errors partial attrs =
     required_field partial ''activity_type'' (a_activity_type attrs)
     @ choice_field ''activity_type'' ACTIVITY_TYPE_CHOICES (a_activity_type attrs)
     @ char_field ''title'' (Some 200) (a_title attrs)
     @ char_field ''description'' None (a_description attrs)
     @ required_field partial ''duration'' (a_duration attrs)
     @ int_field ''duration'' 1 None (a_duration attrs)
     @ decimal_field ''distance'' 10000 (attrs_get (a_distance attrs))
     @ int_field ''calories_burned'' 0 None (attrs_get (a_calories_burned attrs))
     @ choice_field ''intensity'' INTENSITY_CHOICES (a_intensity attrs)
     @ int_field ''average_heart_rate'' 30 (Some 220) (attrs_get (a_average_heart_rate attrs))
     @ int_field ''max_heart_rate'' 30 (Some 220) (attrs_get (a_max_heart_rate attrs))
     @ decimal_field ''elevation_gain'' 10000 (attrs_get (a_elevation_gain attrs))
     @ char_field ''location'' (Some 200) (a_location attrs)"

definition ActivityCreateSerializer_is_valid :: "bool \<Rightarrow> activity_attrs \<Rightarrow> error + activity_attrs" where
  "ActivityCreateSerializer_is_valid partial attrs =
     (case ActivityCreateSerializer_errors partial attrs of
        [] \<Rightarrow> Inr (attrs\<lparr>a_title := map_option strip (a_title attrs),
                        a_description := map_option strip (a_description attrs),
                        a_location := map_option strip (a_location attrs)\<rparr>)
      | e # es \<Rightarrow> Inl (ValidationError (e # es)))"

text \<open>
  The framework's \<^verbatim>\<open>ModelSerializer.update\<close>: every validated key is set on the
  instance, which is then saved. The instance was loaded from the table and a
  validated date is a date, so the date attribute that is saved is a date.
\<close>

definition set_field :: "'a option \<Rightarrow> ('a \<Rightarrow> activity \<Rightarrow> activity) \<Rightarrow> activity \<Rightarrow> activity" where
  "set_field v upd a = (case v of None \<Rightarrow> a | Some x \<Rightarrow> upd x a)"

definition setattrs :: "activity_attrs \<Rightarrow> activity \<Rightarrow> activity" where
  "setattrs attrs a =
     (set_field (a_location attrs) (\<lambda>x r. r\<lparr>location := x\<rparr>)
     (set_field (a_elevation_gain attrs) (\<lambda>x r. r\<lparr>elevation_gain := x\<rparr>)
     (set_field (a_max_heart_rate attrs) (\<lambda>x r. r\<lparr>max_heart_rate := x\<rparr>)
     (set_field (a_average_heart_rate attrs) (\<lambda>x r. r\<lparr>average_heart_rate := x\<rparr>)
     (set_field (a_start_time attrs) (\<lambda>x r. r\<lparr>start_time := x\<rparr>)
     (set_field (a_date attrs) (\<lambda>x r. r\<lparr>date := x\<rparr>)
     (set_field (a_intensity attrs) (\<lambda>x r. r\<lparr>intensity := x\<rparr>)
     (set_field (a_calories_burned attrs) (\<lambda>x r. r\<lparr>calories_burned := x\<rparr>)
     (set_field (a_distance attrs) (\<lambda>x r. r\<lparr>distance := x\<rparr>)
     (set_field (a_duration attrs) (\<lambda>x r. r\<lparr>duration := x\<rparr>)
     (set_field (a_description attrs) (\<lambda>x r. r\<lparr>description := x\<rparr>)
     (set_field (a_title attrs) (\<lambda>x r. r\<lparr>title := x\<rparr>)
     (set_field (a_activity_type attrs) (\<lambda>x r. r\<lparr>activity_type := x\<rparr>) a)))))))))))))"

definition ModelSerializer_update ::
  "activity \<Rightarrow> activity_attrs \<Rightarrow> activity list \<Rightarrow> date_value activity_of \<times> activity list" where
  "ModelSerializer_update instance attrs store =
     (let updated = setattrs attrs instance
      in Activity_save (with_date (DateValue (date updated)) updated) store)"

section \<open>Activity views\<close>

text \<open>
  The caller is \<open>Some u\<close> for an authenticated request of user \<open>u\<close> and \<open>None\<close>
  otherwise; every activity view requires authentication.
\<close>

definition get_queryset :: "nat \<Rightarrow> activity list \<Rightarrow> activity list" where
  "get_queryset u store = filter (\<lambda>a. user a = u) store"

text \<open>
  The framework's \<^verbatim>\<open>get_object\<close>: the one row of the view's queryset with the
  primary key of the URL, 404 when there is none.
\<close>

definition get_object :: "nat \<Rightarrow> nat \<Rightarrow> activity list \<Rightarrow> error + activity" where
  "get_object u k store =
     (case filter (\<lambda>a. pk a = k) (get_queryset u store) of
        [] \<Rightarrow> Inl NotFound
      | [a] \<Rightarrow> Inr a
      | _ \<Rightarrow> Inl ServerError)"

definition ActivityDetailView_retrieve :: "nat option \<Rightarrow> nat \<Rightarrow> activity list \<Rightarrow> error + activity" where
  "ActivityDetailView_retrieve caller k store =
     (case caller of
        None \<Rightarrow> Inl AuthenticationRequired
      | Some u \<Rightarrow> get_object u k store)"

text \<open>
  PUT (\<open>partial = False\<close>) and PATCH (\<open>partial = True\<close>); both select
  ActivityCreateSerializer. The response shows the saved instance, whose date is a
  date here, so that \<open>row_of\<close> gives the instance itself.
\<close>

definition ActivityDetailView_update ::
  "bool \<Rightarrow> nat option \<Rightarrow> nat \<Rightarrow> activity_attrs \<Rightarrow> activity list \<Rightarrow> (error + activity) \<times> activity list" where
  "ActivityDetailView_update partial caller k attrs store =
     (case caller of
        None \<Rightarrow> (Inl AuthenticationRequired, store)
      | Some u \<Rightarrow>
          (case get_object u k store of
             Inl e \<Rightarrow> (Inl e, store)
           | Inr instance \<Rightarrow>
               (case ActivityCreateSerializer_is_valid partial attrs of
                  Inl e \<Rightarrow> (Inl e, store)
                | Inr validated \<Rightarrow>
                    (let (a, store') = ModelSerializer_update instance validated store
                     in (Inr (row_of a), store')))))"

definition ActivityDetailView_destroy ::
  "nat option \<Rightarrow> nat \<Rightarrow> activity list \<Rightarrow> (error + unit) \<times> activity list" where
  "ActivityDetailView_destroy caller k store =
     (case caller of
        None \<Rightarrow> (Inl AuthenticationRequired, store)
      | Some u \<Rightarrow>
          (case get_object u k store of
             Inl e \<Rightarrow> (Inl e, store)
           | Inr instance \<Rightarrow> (Inr (), filter (\<lambda>r. pk r \<noteq> pk instance) store)))"

section \<open>Metrics\<close>

text \<open>
  The query parameters of \<^verbatim>\<open>activity_metrics\<close>. The two dates are held as dates:
  the database layer reads the ISO text of the request, and a parameter that is absent
  or empty, which the view skips, is \<open>None\<close>.
\<close>

record metrics_params =
  p_date_from :: "date option"
  p_date_to :: "date option"
  p_activity_type :: "string option"
  p_period :: "string option"

definition truthy_str :: "string option \<Rightarrow> bool" where
  "truthy_str x = (case x of None \<Rightarrow> False | Some s \<Rightarrow> s \<noteq> [])"

text \<open>
  Lines 98 to 116 of the view: the caller's rows, then the date and type filters. The
  variable \<^verbatim>\<open>date_from\<close> is assigned again when the period is one of the three
  names. A date subtraction that overflows is a server error.
\<close>

definition metrics_queryset ::
  "date \<Rightarrow> nat \<Rightarrow> metrics_params \<Rightarrow> activity list \<Rightarrow> error + activity list" where
  "metrics_queryset today u params store =
     (let queryset = filter (\<lambda>a. user a = u) store;
          date_from =
            (if truthy_str (p_period params)
             then if p_period params = Some ''week''
                  then map_option Some (date_minus_days today 7)
                  else if p_period params = Some ''month''
                  then map_option Some (date_minus_days today 30)
                  else if p_period params = Some ''year''
                  then map_option Some (date_minus_days today 365)
                  else Some (p_date_from params)
             else Some (p_date_from params))
      in case date_from of
           None \<Rightarrow> Inl ServerError
         | Some date_from \<Rightarrow>
             (let queryset = (case date_from of
                                Some d \<Rightarrow> filter (\<lambda>a. date_le d (date a)) queryset
                              | None \<Rightarrow> queryset);
                  queryset = (case p_date_to params of
                                Some d \<Rightarrow> filter (\<lambda>a. date_le (date a) d) queryset
                              | None \<Rightarrow> queryset);
                  queryset = (if truthy_str (p_activity_type params)
                              then filter (\<lambda>a. activity_type a = the (p_activity_type params)) queryset
                              else queryset)
              in Inr queryset))"

subsection \<open>Aggregates\<close>

text \<open>
  The aggregates of the database over one column: nulls are skipped, and a sum or a
  mean over no value is null. The mean of a decimal column is a decimal, the exact
  quotient here. The mean of an integer column reaches the view as a binary float,
  and \<^verbatim>\<open>round\<close> then rounds that float: these two operations are the parameter
  \<open>ar\<close>, so that what is proved holds for whatever float arithmetic the database and
  Python supply. The \<open>0\<close> of the float type stands for Python's integer 0.
\<close>

record 'f float_arith =
  avg_integer :: "int list \<Rightarrow> 'f"
  round_float :: "'f \<Rightarrow> 'f"

fun non_null :: "'a option list \<Rightarrow> 'a list" where
  "non_null [] = []"
| "non_null (None # xs) = non_null xs"
| "non_null (Some v # xs) = v # non_null xs"

definition Count_agg :: "'a list \<Rightarrow> int" where
  "Count_agg xs = int (length xs)"

definition Sum_agg :: "'a::comm_monoid_add option list \<Rightarrow> 'a option" where
  "Sum_agg xs = (let vs = non_null xs in if vs = [] then None else Some (sum_list vs))"

definition Avg_agg :: "rat option list \<Rightarrow> rat option" where
  "Avg_agg xs =
     (let vs = non_null xs
      in if vs = [] then None else Some (sum_list vs / of_nat (length vs)))"

definition Avg_float :: "'f float_arith \<Rightarrow> int option list \<Rightarrow> 'f option" where
  "Avg_float ar xs =
     (let vs = non_null xs in if vs = [] then None else Some (avg_integer ar vs))"

text \<open>
  \<^verbatim>\<open>round(x, 2)\<close> where \<open>x\<close> is a float or the integer 0 that \<^verbatim>\<open>or 0\<close> put in
  its place.
\<close>

definition py_round2 :: "'f::zero float_arith \<Rightarrow> 'f \<Rightarrow> 'f" where
  "py_round2 ar x = (if x = 0 then 0 else round_float ar x)"

text \<open>Exact rational arithmetic as one instance.\<close>

definition exact_arith :: "rat float_arith" where
  "exact_arith = \<lparr>avg_integer = (\<lambda>vs. of_int (sum_list vs) / of_nat (length vs)),
                  round_float = round2_rat\<rparr>"

text \<open>\<^verbatim>\<open>x or d\<close> on an optional number: \<^verbatim>\<open>None\<close> and zero give \<open>d\<close>.\<close>

definition py_or :: "'a::zero option \<Rightarrow> 'a \<Rightarrow> 'a" where
  "py_or x d = (case x of None \<Rightarrow> d | Some v \<Rightarrow> if v = 0 then d else v)"

text \<open>
  The rows grouped by type with their counts, highest count first. The database leaves
  the order of equal counts open; here groups of equal count keep the order in which
  \<open>remdups\<close> lists the types.
\<close>

definition activity_breakdown_rows :: "activity list \<Rightarrow> (string \<times> int) list" where
  "activity_breakdown_rows queryset =
     sort_key (\<lambda>r. - snd r)
       (map (\<lambda>t. (t, Count_agg (filter (\<lambda>a. activity_type a = t) queryset)))
            (remdups (map activity_type queryset)))"

record 'f summary =
  total_activities :: int
  total_duration :: int
  total_distance :: rat
  total_calories :: int
  average_duration :: 'f
  average_distance :: rat
  average_calories :: 'f
  most_common_activity :: "string option"
  activity_breakdown :: "(string \<times> int) list"

text \<open>Lines 118 to 154 of the view, over the filtered rows.\<close>

definition summary_data :: "'f::zero float_arith \<Rightarrow> activity list \<Rightarrow> 'f summary" where
  "summary_data ar queryset =
     (let stats_total_activities = Count_agg queryset;
          stats_total_duration = Sum_agg (map (\<lambda>a. Some (duration a)) queryset);
          stats_total_distance = Sum_agg (map distance queryset);
          stats_total_calories = Sum_agg (map calories_burned queryset);
          stats_average_duration = Avg_float ar (map (\<lambda>a. Some (duration a)) queryset);
          stats_average_distance = Avg_agg (map distance queryset);
          stats_average_calories = Avg_float ar (map calories_burned queryset);
          breakdown = activity_breakdown_rows queryset;
          most_common = (case breakdown of [] \<Rightarrow> None | r # _ \<Rightarrow> Some (fst r))
      in \<lparr>total_activities = stats_total_activities,
          total_duration = py_or stats_total_duration 0,
          total_distance = py_or stats_total_distance 0,
          total_calories = py_or stats_total_calories 0,
          average_duration = py_round2 ar (py_or stats_average_duration 0),
          average_distance = round2_rat (py_or stats_average_distance 0),
          average_calories = py_round2 ar (py_or stats_average_calories 0),
          most_common_activity = most_common,
          activity_breakdown = breakdown\<rparr>)"

definition activity_metrics ::
  "'f::zero float_arith \<Rightarrow> date \<Rightarrow> nat option \<Rightarrow> metrics_params \<Rightarrow> activity list
     \<Rightarrow> error + 'f summary" where
  "activity_metrics ar today caller params store =
     (case caller of
        None \<Rightarrow> Inl AuthenticationRequired
      | Some u \<Rightarrow>
          (case metrics_queryset today u params store of
             Inl e \<Rightarrow> Inl e
           | Inr queryset \<Rightarrow> Inr (summary_data ar queryset)))"

subsection \<open>Statistics by type\<close>

record 'f type_stat =
  ts_activity_type :: string
  ts_count :: int
  ts_total_duration :: int
  ts_total_distance :: rat
  ts_total_calories :: int
  ts_average_duration :: 'f
  ts_average_distance :: rat
  ts_average_calories :: 'f

text \<open>One row of \<^verbatim>\<open>activity_type_stats\<close>: the aggregates over the rows of one type.\<close>

definition type_stat_of :: "'f::zero float_arith \<Rightarrow> string \<Rightarrow> activity list \<Rightarrow> 'f type_stat" where
  "type_stat_of ar t queryset =
     (let rows = filter (\<lambda>a. activity_type a = t) queryset
      in \<lparr>ts_activity_type = t,
          ts_count = Count_agg rows,
          ts_total_duration = py_or (Sum_agg (map (\<lambda>a. Some (duration a)) rows)) 0,
          ts_total_distance = round2_rat (py_or (Sum_agg (map distance rows)) 0),
          ts_total_calories = py_or (Sum_agg (map calories_burned rows)) 0,
          ts_average_duration =
            py_round2 ar (py_or (Avg_float ar (map (\<lambda>a. Some (duration a)) rows)) 0),
          ts_average_distance = round2_rat (py_or (Avg_agg (map distance rows)) 0),
          ts_average_calories =
            py_round2 ar (py_or (Avg_float ar (map calories_burned rows)) 0)\<rparr>)"

definition activity_type_stats ::
  "'f::zero float_arith \<Rightarrow> nat option \<Rightarrow> date option \<Rightarrow> date option \<Rightarrow> activity list
     \<Rightarrow> error + 'f type_stat list" where
  "activity_type_stats ar caller date_from date_to store =
     (case caller of
        None \<Rightarrow> Inl AuthenticationRequired
      | Some u \<Rightarrow>
          (let queryset = filter (\<lambda>a. user a = u) store;
               queryset = (case date_from of
                             Some d \<Rightarrow> filter (\<lambda>a. date_le d (date a)) queryset
                           | None \<Rightarrow> queryset);
               queryset = (case date_to of
                             Some d \<Rightarrow> filter (\<lambda>a. date_le (date a) d) queryset
                           | None \<Rightarrow> queryset)
           in Inr (sort_key (\<lambda>r. - ts_count r)
                     (map (\<lambda>t. type_stat_of ar t queryset)
                          (remdups (map activity_type queryset))))))"

section \<open>Registration\<close>






subsection \<open>The per-field pass\<close>





subsection \<open>UserProfileSerializer\<close>




subsection \<open>UserRegistrationSerializer\<close>

















section \<open>Example data\<close>

text \<open>
  Two users. User 1 has a ride without a title and a gym session without distance or
  calories; user 2 has a swim. A new ride of user 1 is built in memory with neither
  title nor date, so that its date attribute is the column default.
\<close>

definition ex_ride :: activity where
  "ex_ride = \<lparr>pk = 1, user = 1, activity_type = ''CYCLING'', title = [], description = [],
     duration = 30, distance = Some 5, calories_burned = Some 300, intensity = ''MODERATE'',
     date = \<lparr>year = 2024, month = 6, day = 10\<rparr>, start_time = None,
     average_heart_rate = None, max_heart_rate = Some 100, elevation_gain = None,
     location = []\<rparr>"

definition ex_swim :: activity where
  "ex_swim = \<lparr>pk = 2, user = 2, activity_type = ''SWIMMING'', title = ''Laps'', description = [],
     duration = 45, distance = Some 2, calories_burned = Some 400, intensity = ''HIGH'',
     date = \<lparr>year = 2024, month = 6, day = 15\<rparr>, start_time = None,
     average_heart_rate = None, max_heart_rate = None, elevation_gain = None,
     location = []\<rparr>"

definition ex_lift :: activity where
  "ex_lift = \<lparr>pk = 3, user = 1, activity_type = ''WEIGHTLIFTING'', title = ''Gym'',
     description = [], duration = 60, distance = None, calories_burned = None,
     intensity = ''MODERATE'', date = \<lparr>year = 2024, month = 6, day = 1\<rparr>, start_time = None,
     average_heart_rate = None, max_heart_rate = None, elevation_gain = None,
     location = []\<rparr>"

definition ex_now :: datetime where
  "ex_now = \<lparr>dt_date = \<lparr>year = 2026, month = 11, day = 3\<rparr>, dt_hour = 23, dt_minute = 32,
     dt_second = 34, dt_microsecond = 91790, dt_utcoffset = Some 0,
     dt_local_date = \<lparr>year = 2026, month = 11, day = 3\<rparr>\<rparr>"

definition ex_new_ride :: "date_value activity_of" where
  "ex_new_ride = \<lparr>pk = 0, user = 1, activity_type = ''CYCLING'', title = [], description = [],
     duration = 45, distance = None, calories_burned = None, intensity = ''MODERATE'',
     date = date_or_default ex_now None, start_time = None, average_heart_rate = None,
     max_heart_rate = None, elevation_gain = None, location = []\<rparr>"

definition ex_store :: "activity list" where
  "ex_store = [ex_ride, ex_swim, ex_lift]"

definition ex_today :: date where
  "ex_today = \<lparr>year = 2024, month = 6, day = 15\<rparr>"

definition ex_week :: metrics_params where
  "ex_week = \<lparr>p_date_from = None, p_date_to = None, p_activity_type = None,
              p_period = Some ''week''\<rparr>"





definition ex_profile :: user_profile where
  "ex_profile = \<lparr>date_of_birth = Some \<lparr>year = 2000, month = 6, day = 15\<rparr>, gender = None,
     height = None, weight = None, bio = [], profile_picture = None\<rparr>"

section \<open>Auxiliary facts\<close>

lemmas date_defs = date_minus_days_def toordinal_def ymd2ord_def days_before_year_def
  days_before_month_def DAYS_BEFORE_MONTH_def DAYS_IN_MONTH_def is_leap_def MAXORDINAL_def
  ord2ymd_def date_le_def date_lt_def tuple_lt_def

lemmas example_defs = ex_ride_def ex_swim_def ex_lift_def ex_store_def ex_today_def ex_week_def

lemmas field_defs = required_field_def choice_field_def char_field_def int_field_def
  decimal_field_def attrs_get_def

lemma date_le_trans: "date_le a b \<Longrightarrow> date_le b c \<Longrightarrow> date_le a c"
  by (auto simp: date_le_def date_lt_def tuple_lt_def)

lemma non_null_map:
  "non_null (map f xs) = map (\<lambda>a. the (f a)) (filter (\<lambda>a. f a \<noteq> None) xs)"
  by (induction xs) (auto split: option.splits)

lemma sum_list_non_null:
  "sum_list (non_null xs) = (\<Sum>x\<leftarrow>xs. case x of None \<Rightarrow> 0 | Some v \<Rightarrow> v)"
  by (induction xs rule: non_null.induct) auto

lemma py_or_Sum_agg: "py_or (Sum_agg xs) 0 = sum_list (non_null xs)"
  by (simp add: py_or_def Sum_agg_def Let_def)

lemma round2_rat_0: "round2_rat 0 = 0"
  by (simp add: round2_rat_def round_half_even_def)

lemma round2_py_or_Avg_agg:
  "round2_rat (py_or (Avg_agg xs) 0) =
     (if non_null xs = [] then 0
      else round2_rat (sum_list (non_null xs) / of_nat (length (non_null xs))))"
  by (simp add: py_or_def Avg_agg_def Let_def round2_rat_0)

lemma py_round2_py_or_Avg_float:
  "py_round2 ar (py_or (Avg_float ar xs) 0) =
     (if non_null xs = [] \<or> avg_integer ar (non_null xs) = 0 then 0
      else round_float ar (avg_integer ar (non_null xs)))"
  by (simp add: py_or_def Avg_float_def Let_def py_round2_def)

lemma total_activities_eq: "total_activities (summary_data ar qs) = int (length qs)"
  by (simp add: summary_data_def Let_def Count_agg_def)

lemma total_distance_eq:
  "total_distance (summary_data ar qs) = sum_list (non_null (map distance qs))"
  by (simp add: summary_data_def Let_def py_or_Sum_agg)

lemma total_calories_eq:
  "total_calories (summary_data ar qs) = sum_list (non_null (map calories_burned qs))"
  by (simp add: summary_data_def Let_def py_or_Sum_agg)

lemma average_distance_eq:
  "average_distance (summary_data ar qs) =
     (if non_null (map distance qs) = [] then 0
      else round2_rat (sum_list (non_null (map distance qs))
             / of_nat (length (non_null (map distance qs)))))"
  by (simp add: summary_data_def Let_def round2_py_or_Avg_agg)

lemma average_calories_eq:
  "average_calories (summary_data ar qs) =
     (if non_null (map calories_burned qs) = []
         \<or> avg_integer ar (non_null (map calories_burned qs)) = 0 then 0
      else round_float ar (avg_integer ar (non_null (map calories_burned qs))))"
  unfolding summary_data_def Let_def summary.simps py_round2_py_or_Avg_float
  by simp

lemma summary_data_Nil:
  "summary_data ar [] =
     \<lparr>total_activities = 0, total_duration = 0, total_distance = 0, total_calories = 0,
      average_duration = 0, average_distance = 0, average_calories = 0,
      most_common_activity = None, activity_breakdown = []\<rparr>"
  by (simp add: summary_data_def Count_agg_def Sum_agg_def Avg_agg_def Avg_float_def py_or_def
      py_round2_def activity_breakdown_rows_def round2_rat_0)

text \<open>
  The per-type statistics follow the same rule as the summary: the mean distance of a
  type is taken over the rows of that type that have a distance.
\<close>

lemma type_stat_average_distance:
  "ts_average_distance (type_stat_of ar t qs) =
     (let present = filter (\<lambda>a. distance a \<noteq> None) (filter (\<lambda>a. activity_type a = t) qs)
      in if present = [] then 0
         else round2_rat ((\<Sum>a\<leftarrow>present. the (distance a)) / of_nat (length present)))"
  by (simp add: type_stat_of_def Let_def round2_py_or_Avg_agg non_null_map)



lemma period_date_from:
  assumes "p_period params = Some p"
      and "p = ''week'' \<and> n = 7 \<or> p = ''month'' \<and> n = 30 \<or> p = ''year'' \<and> n = 365"
      and "date_minus_days today n = Some lo"
  shows "metrics_queryset today u params store =
     Inr (let queryset = filter (\<lambda>a. date_le lo (date a)) (filter (\<lambda>a. user a = u) store);
              queryset = (case p_date_to params of
                            Some d \<Rightarrow> filter (\<lambda>a. date_le (date a) d) queryset
                          | None \<Rightarrow> queryset)
          in if truthy_str (p_activity_type params)
             then filter (\<lambda>a. activity_type a = the (p_activity_type params)) queryset
             else queryset)"
  using assms(2)
proof (elim disjE conjE)
  assume "p = ''week''" "n = 7"
  with assms(1,3) show ?thesis
    by (simp add: metrics_queryset_def truthy_str_def Let_def split: option.splits)
next
  assume "p = ''month''" "n = 30"
  with assms(1,3) show ?thesis
    by (simp add: metrics_queryset_def truthy_str_def Let_def split: option.splits)
next
  assume "p = ''year''" "n = 365"
  with assms(1,3) show ?thesis
    by (simp add: metrics_queryset_def truthy_str_def Let_def split: option.splits)
qed

lemma ex_week_floor:
  "date_minus_days ex_today 7 = Some \<lparr>year = 2024, month = 6, day = 8\<rparr>"
  by (simp add: ex_today_def date_defs Let_def)

lemma get_object_NotFound:
  assumes "\<forall>a \<in> set store. pk a = k \<longrightarrow> user a \<noteq> u"
  shows "get_object u k store = Inl NotFound"
proof -
  have "filter (\<lambda>a. pk a = k) (get_queryset u store) = []"
    using assms by (auto simp: get_queryset_def filter_empty_conv)
  then show ?thesis by (simp add: get_object_def)
qed

lemma get_object_one:
  assumes "filter (\<lambda>a. pk a = k) (get_queryset u store) = [inst]"
  shows "get_object u k store = Inr inst" and "inst \<in> set store" and "pk inst = k"
proof -
  show "get_object u k store = Inr inst" using assms by (simp add: get_object_def)
  have "inst \<in> set (filter (\<lambda>a. pk a = k) (get_queryset u store))" using assms by simp
  then show "inst \<in> set store" and "pk inst = k" by (auto simp: get_queryset_def)
qed

lemma row_of_fields:
  "pk (row_of a) = pk a"
  "title (row_of a) = title a"
  "average_heart_rate (row_of a) = average_heart_rate a"
  "max_heart_rate (row_of a) = max_heart_rate a"
  "date (row_of a) = get_prep_value (date a)"
  by (simp_all add: row_of_def with_date_def)

lemma row_of_with_date: "row_of (with_date (DateValue (date r)) r) = r"
  by (simp add: row_of_def with_date_def get_prep_value_def)

lemma Activity_save_stored:
  "row_of (fst (Activity_save a store)) \<in> set (snd (Activity_save a store))"
  by (auto simp: Activity_save_def Model_save_def Let_def row_of_fields)

lemma Activity_save_keeps:
  "pk (fst (Activity_save a store)) = pk a"
  "average_heart_rate (fst (Activity_save a store)) = average_heart_rate a"
  "max_heart_rate (fst (Activity_save a store)) = max_heart_rate a"
  by (simp_all add: Activity_save_def Let_def)

text \<open>
  \<^verbatim>\<open>Activity.save\<close> on an instance whose date attribute is a calendar date: an empty
  title becomes the display name of the type, \<open>" - "\<close> and the ISO date, and a title
  that is not empty is kept.
\<close>

lemma Activity_save_title:
  assumes "date a = DateValue d"
  shows "title (fst (Activity_save a store)) =
           (if title a = [] then get_activity_type_display a @ '' - '' @ isoformat d
            else title a)"
  using assms by (simp add: Activity_save_def Let_def str_date_value_def)

lemma isoformat_example: "isoformat \<lparr>year = 2024, month = 6, day = 5\<rparr> = ''2024-06-05''"
  by (simp add: isoformat_def zero_pad_def)

lemma only_average_valid:
  assumes "30 \<le> v" and "v \<le> 220"
  shows "ActivityCreateSerializer_is_valid True (no_attrs\<lparr>a_average_heart_rate := Some (Some v)\<rparr>)
           = Inr (no_attrs\<lparr>a_average_heart_rate := Some (Some v)\<rparr>)"
  using assms
  by (simp add: ActivityCreateSerializer_is_valid_def ActivityCreateSerializer_errors_def
      no_attrs_def field_defs)

lemma setattrs_only_average:
  "setattrs (no_attrs\<lparr>a_average_heart_rate := Some (Some v)\<rparr>) inst
     = inst\<lparr>average_heart_rate := Some v\<rparr>"
  by (simp add: setattrs_def set_field_def no_attrs_def)

text \<open>
  What \<^verbatim>\<open>ActivitySerializer.validate\<close> decides, on data that has passed the
  per-field bounds (a present heart rate is at least 30, so it is not falsy): an
  error exactly when both rates are present and the average exceeds the maximum.
\<close>

lemma ActivitySerializer_validate_rule:
  assumes "\<forall>v. attrs_get (a_average_heart_rate attrs) = Some v \<longrightarrow> 30 \<le> v"
      and "\<forall>v. attrs_get (a_max_heart_rate attrs) = Some v \<longrightarrow> 30 \<le> v"
  shows "ActivitySerializer_validate attrs =
     (if \<exists>a m. attrs_get (a_average_heart_rate attrs) = Some a
              \<and> attrs_get (a_max_heart_rate attrs) = Some m \<and> m < a
      then Inl (ValidationError [(''average_heart_rate'', HeartRateOrder)])
      else Inr attrs)"
  using assms
  by (cases "attrs_get (a_average_heart_rate attrs)"; cases "attrs_get (a_max_heart_rate attrs)")
     (auto simp: ActivitySerializer_validate_def truthy_int_def Let_def)

section \<open>Period and explicit start date\<close>

text \<open>
  C1, as amended. When \<open>period\<close> is \<open>week\<close>, \<open>month\<close> or \<open>year\<close>, the floor derived
  from it takes the place of an explicit \<open>date_from\<close>: the result does not depend on
  the explicit value, and it is exactly the caller's activities on or after the floor
  that also pass the \<open>date_to\<close> and type filters. So an explicit \<open>date_from\<close> on or
  before the floor is satisfied by every returned activity as well.
\<close>

theorem period_replaces_date_from:
  assumes "p_period params = Some p"
      and "p = ''week'' \<and> n = 7 \<or> p = ''month'' \<and> n = 30 \<or> p = ''year'' \<and> n = 365"
      and "date_minus_days today n = Some lo"
  shows "metrics_queryset today u (params\<lparr>p_date_from := x\<rparr>) store
           = metrics_queryset today u params store
       \<and> (\<exists>qs. metrics_queryset today u params store = Inr qs
             \<and> (\<forall>a. a \<in> set qs \<longleftrightarrow>
                    a \<in> set store \<and> user a = u \<and> date_le lo (date a)
                    \<and> (\<forall>d. p_date_to params = Some d \<longrightarrow> date_le (date a) d)
                    \<and> (truthy_str (p_activity_type params) \<longrightarrow>
                          Some (activity_type a) = p_activity_type params))
             \<and> (\<forall>d. date_le d lo \<longrightarrow> (\<forall>a \<in> set qs. date_le d (date a))))"
proof -
  have a: "p_period (params\<lparr>p_date_from := x\<rparr>) = Some p" using assms(1) by simp
  have 1: "metrics_queryset today u (params\<lparr>p_date_from := x\<rparr>) store
             = metrics_queryset today u params store"
    by (simp add: period_date_from [OF a assms(2,3)] period_date_from [OF assms] Let_def)
  obtain qs where qs: "metrics_queryset today u params store = Inr qs"
    by (simp add: period_date_from [OF assms])
  have mem: "a \<in> set qs \<longleftrightarrow>
               a \<in> set store \<and> user a = u \<and> date_le lo (date a)
               \<and> (\<forall>d. p_date_to params = Some d \<longrightarrow> date_le (date a) d)
               \<and> (truthy_str (p_activity_type params) \<longrightarrow>
                     Some (activity_type a) = p_activity_type params)" for a
    using qs unfolding period_date_from [OF assms]
    by (auto simp: Let_def truthy_str_def split: option.splits if_splits)
  have "\<forall>d. date_le d lo \<longrightarrow> (\<forall>a \<in> set qs. date_le d (date a))"
    using mem date_le_trans by blast
  with 1 qs mem show ?thesis by blast
qed

theorem period_replaces_date_from_witness:
  "metrics_queryset ex_today 1
     (ex_week\<lparr>p_date_from := Some \<lparr>year = 2024, month = 5, day = 1\<rparr>\<rparr>) ex_store
     = metrics_queryset ex_today 1 ex_week ex_store
   \<and> metrics_queryset ex_today 1 ex_week ex_store = Inr [ex_ride]
   \<and> date_le \<lparr>year = 2024, month = 6, day = 8\<rparr> (date ex_ride)
   \<and> date_le \<lparr>year = 2024, month = 5, day = 1\<rparr> (date ex_ride)"
proof -
  have p: "p_period ex_week = Some ''week''" by (simp add: ex_week_def)
  have n: "''week'' = ''week'' \<and> (7::int) = 7 \<or> ''week'' = ''month'' \<and> (7::int) = 30
           \<or> ''week'' = ''year'' \<and> (7::int) = 365" by simp
  have q: "metrics_queryset ex_today 1 ex_week ex_store = Inr [ex_ride]"
    by (simp add: metrics_queryset_def truthy_str_def example_defs date_defs Let_def)
  have d: "date_le \<lparr>year = 2024, month = 5, day = 1\<rparr> \<lparr>year = 2024, month = 6, day = 8\<rparr>"
    by (simp add: date_defs)
  from period_replaces_date_from [OF p n ex_week_floor, of 1
         "Some \<lparr>year = 2024, month = 5, day = 1\<rparr>" ex_store] q d
  show ?thesis by auto
qed

text \<open>
  C1 as written does not hold: with \<open>period = week\<close> on 2024-06-15 and an explicit
  \<open>date_from\<close> of 2024-06-14, the ride of 2024-06-10 is returned although it lies
  before the explicit bound.
\<close>

theorem period_overrides_date_from_counterexample:
  "metrics_queryset ex_today 1
     (ex_week\<lparr>p_date_from := Some \<lparr>year = 2024, month = 6, day = 14\<rparr>\<rparr>) ex_store = Inr [ex_ride]
   \<and> \<not> date_le \<lparr>year = 2024, month = 6, day = 14\<rparr> (date ex_ride)"
  by (simp add: metrics_queryset_def truthy_str_def example_defs date_defs Let_def)

section \<open>Access to a single activity\<close>

text \<open>
  C2. When no activity with the requested id belongs to the authenticated caller,
  whether no such id exists or the activity is another user's, retrieve, update and
  delete all answer NotFound, and the table is left as it was.
\<close>

theorem detail_not_found:
  assumes "\<forall>a \<in> set store. pk a = k \<longrightarrow> user a \<noteq> u"
  shows "ActivityDetailView_retrieve (Some u) k store = Inl NotFound
       \<and> ActivityDetailView_update partial (Some u) k attrs store = (Inl NotFound, store)
       \<and> ActivityDetailView_destroy (Some u) k store = (Inl NotFound, store)"
  using get_object_NotFound [OF assms]
  by (simp add: ActivityDetailView_retrieve_def ActivityDetailView_update_def
      ActivityDetailView_destroy_def)

theorem detail_not_found_witness:
  "ex_swim \<in> set ex_store \<and> pk ex_swim = 2 \<and> user ex_swim \<noteq> 1
   \<and> ActivityDetailView_retrieve (Some 1) 2 ex_store = Inl NotFound
   \<and> ActivityDetailView_update True (Some 1) 2 (no_attrs\<lparr>a_duration := Some 1\<rparr>) ex_store
       = (Inl NotFound, ex_store)
   \<and> ActivityDetailView_destroy (Some 1) 2 ex_store = (Inl NotFound, ex_store)
   \<and> ActivityDetailView_retrieve (Some 1) 99 ex_store = Inl NotFound
   \<and> ActivityDetailView_update True (Some 1) 99 (no_attrs\<lparr>a_duration := Some 1\<rparr>) ex_store
       = (Inl NotFound, ex_store)
   \<and> ActivityDetailView_destroy (Some 1) 99 ex_store = (Inl NotFound, ex_store)"
proof -
  have other: "\<forall>a \<in> set ex_store. pk a = 2 \<longrightarrow> user a \<noteq> 1"
    by (simp add: example_defs)
  have missing: "\<forall>a \<in> set ex_store. pk a = 99 \<longrightarrow> user a \<noteq> 1"
    by (simp add: example_defs)
  have "ex_swim \<in> set ex_store \<and> pk ex_swim = 2 \<and> user ex_swim \<noteq> 1"
    by (simp add: example_defs)
  with detail_not_found [OF other, of True "no_attrs\<lparr>a_duration := Some 1\<rparr>"]
       detail_not_found [OF missing, of True "no_attrs\<lparr>a_duration := Some 1\<rparr>"]
  show ?thesis by simp
qed

section \<open>Derived fields\<close>

text \<open>
  C3. For an activity with distance \<open>d > 0\<close>, pace is \<^verbatim>\<open>round(duration / d, 2)\<close> and,
  the duration being at least one minute as the model requires, speed is
  \<^verbatim>\<open>round(d / (duration / 60), 2)\<close>; with the distance absent or zero both are null.
  This holds for any float arithmetic \<open>fl\<close>.
\<close>

theorem pace_speed_derived:
  "(distance a = Some d \<and> 0 < d \<longrightarrow>
      pace fl a = Some (round2 fl (fdiv fl (of_int_f fl (duration a)) (of_decimal fl d)))
      \<and> (1 \<le> duration a \<longrightarrow>
           speed fl a =
             Some (round2 fl (fdiv fl (of_decimal fl d) (int_truediv fl (duration a) 60)))))
   \<and> (distance a = None \<or> distance a = Some 0 \<longrightarrow> pace fl a = None \<and> speed fl a = None)"
  by (auto simp: pace_def speed_def truthy_decimal_def)

theorem pace_speed_derived_witness:
  "distance ex_ride = Some 5 \<and> (0::rat) < 5 \<and> 1 \<le> duration ex_ride
   \<and> pace exact_ops ex_ride = Some 6 \<and> speed exact_ops ex_ride = Some 10
   \<and> distance ex_lift = None
   \<and> pace exact_ops ex_lift = None \<and> speed exact_ops ex_lift = None"
  using pace_speed_derived [of ex_ride 5 exact_ops] pace_speed_derived [of ex_lift 0 exact_ops]
  by (simp add: ex_ride_def ex_lift_def exact_ops_def round2_rat_def round_half_even_def)

section \<open>Summary statistics\<close>

text \<open>
  C4. The summary over an empty filtered set has a count of 0, the three sums 0, the
  three averages 0, no most common activity and an empty breakdown; so does the
  response of the metrics view whenever the filters leave no activity.
\<close>

theorem metrics_empty_set:
  "summary_data ar [] =
     \<lparr>total_activities = 0, total_duration = 0, total_distance = 0, total_calories = 0,
      average_duration = 0, average_distance = 0, average_calories = 0,
      most_common_activity = None, activity_breakdown = []\<rparr>
   \<and> (metrics_queryset today u params store = Inr [] \<longrightarrow>
        activity_metrics ar today (Some u) params store =
          Inr \<lparr>total_activities = 0, total_duration = 0, total_distance = 0, total_calories = 0,
               average_duration = 0, average_distance = 0, average_calories = 0,
               most_common_activity = None, activity_breakdown = []\<rparr>)"
  by (simp add: summary_data_Nil activity_metrics_def)

theorem metrics_empty_set_witness:
  "metrics_queryset ex_today 7 ex_week ex_store = Inr []
   \<and> activity_metrics exact_arith ex_today (Some 7) ex_week ex_store =
       Inr \<lparr>total_activities = 0, total_duration = 0, total_distance = 0, total_calories = 0,
            average_duration = 0, average_distance = 0, average_calories = 0,
            most_common_activity = None, activity_breakdown = []\<rparr>"
proof -
  have "metrics_queryset ex_today 7 ex_week ex_store = Inr []"
    by (simp add: metrics_queryset_def truthy_str_def example_defs date_defs Let_def)
  with metrics_empty_set [of exact_arith ex_today 7 ex_week ex_store] show ?thesis by simp
qed

section \<open>Registration\<close>




section \<open>Heart rates\<close>

text \<open>
  C6. The write path does not apply the heart-rate rule. A PATCH by the owner that
  sends an average of 200 and a maximum of 100 is accepted and stored, while
  \<^verbatim>\<open>ActivitySerializer.validate\<close>, which the update views do not select, rejects the
  same data with HeartRateOrder.
\<close>

theorem update_stores_heart_rate_disorder:
  "ActivityDetailView_update True (Some 1) 1
     (no_attrs\<lparr>a_average_heart_rate := Some (Some 200), a_max_heart_rate := Some (Some 100)\<rparr>)
     [ex_ride]
   = (Inr (ex_ride\<lparr>title := ''Cycling - 2024-06-10'', average_heart_rate := Some 200,
                   max_heart_rate := Some 100\<rparr>),
      [ex_ride\<lparr>title := ''Cycling - 2024-06-10'', average_heart_rate := Some 200,
               max_heart_rate := Some 100\<rparr>])
   \<and> ActivitySerializer_validate
        (no_attrs\<lparr>a_average_heart_rate := Some (Some 200), a_max_heart_rate := Some (Some 100)\<rparr>)
      = Inl (ValidationError [(''average_heart_rate'', HeartRateOrder)])"
  by (simp add: ActivityDetailView_update_def get_object_def get_queryset_def ex_ride_def
      ActivityCreateSerializer_is_valid_def ActivityCreateSerializer_errors_def no_attrs_def
      field_defs ModelSerializer_update_def setattrs_def set_field_def Activity_save_def
      Model_save_def get_activity_type_display_def ACTIVITY_TYPE_CHOICES_def isoformat_def
      zero_pad_def ActivitySerializer_validate_def truthy_int_def Let_def row_of_def
      with_date_def get_prep_value_def str_date_value_def strip_def)

section \<open>Automatic title\<close>

text \<open>
  C7. The title is built from \<^verbatim>\<open>str\<close> of the date attribute as the instance holds
  it at the time of the save. An activity created with neither title nor date holds
  the column default, a \<^verbatim>\<open>datetime\<close>, so its title carries the full timestamp and
  not the date that the row keeps: created at 23:32:34.091790 UTC on 2026-11-03, the
  cycling activity is stored with the date 2026-11-03 and a title that is not
  \<open>"Cycling - 2026-11-03"\<close>.
\<close>

theorem create_without_date_title:
  "title ex_new_ride = [] \<and> date ex_new_ride = DateTimeValue ex_now
   \<and> title (fst (Activity_objects_create ex_new_ride []))
       = ''Cycling - 2026-11-03 23:32:34.091790+00:00''
   \<and> map title (snd (Activity_objects_create ex_new_ride []))
       = [''Cycling - 2026-11-03 23:32:34.091790+00:00'']
   \<and> map date (snd (Activity_objects_create ex_new_ride []))
       = [\<lparr>year = 2026, month = 11, day = 3\<rparr>]
   \<and> get_activity_type_display ex_new_ride @ '' - ''
        @ isoformat \<lparr>year = 2026, month = 11, day = 3\<rparr> = ''Cycling - 2026-11-03''
   \<and> title (fst (Activity_objects_create ex_new_ride [])) \<noteq> ''Cycling - 2026-11-03''"
  by (simp add: Activity_objects_create_def Activity_save_def Model_save_def Let_def
      ex_new_ride_def ex_now_def date_or_default_def next_pk_def row_of_def with_date_def
      get_prep_value_def str_date_value_def datetime_str_def isoformat_def zero_pad_def
      get_activity_type_display_def ACTIVITY_TYPE_CHOICES_def)

section \<open>Age\<close>

text \<open>
  C8. For a profile with a date of birth, the age is today's year minus the birth year,
  less one exactly when today's (month, day) comes before the birthday's (month, day).
  Born 2000-06-15: 23 on 2024-06-14 and 24 on 2024-06-15.
\<close>

theorem age_whole_years:
  assumes "date_of_birth p = Some dob"
  shows "age today p =
           Some (year today - year dob -
                 (if month today < month dob \<or> (month today = month dob \<and> day today < day dob)
                  then 1 else 0))"
  using assms by (simp add: age_def tuple_lt_def)

theorem age_whole_years_witness:
  "date_of_birth ex_profile = Some \<lparr>year = 2000, month = 6, day = 15\<rparr>
   \<and> age \<lparr>year = 2024, month = 6, day = 14\<rparr> ex_profile = Some 23
   \<and> age \<lparr>year = 2024, month = 6, day = 15\<rparr> ex_profile = Some 24"
proof -
  have b: "date_of_birth ex_profile = Some \<lparr>year = 2000, month = 6, day = 15\<rparr>"
    by (simp add: ex_profile_def)
  from age_whole_years [OF b, of "\<lparr>year = 2024, month = 6, day = 14\<rparr>"]
       age_whole_years [OF b, of "\<lparr>year = 2024, month = 6, day = 15\<rparr>"] b
  show ?thesis by simp
qed

section \<open>Partial updates\<close>

text \<open>
  C9. The cross-field heart-rate check reads only the submitted data: data that
  carries at most one of the two rates passes it. A partial update by the owner that
  sends only an average above the stored maximum is accepted, and the stored activity
  then has an average greater than its maximum.
\<close>

theorem partial_update_ignores_stored_heart_rate:
  assumes "filter (\<lambda>a. pk a = k) (get_queryset u store) = [inst]"
      and "max_heart_rate inst = Some m"
      and "30 \<le> v" and "v \<le> 220" and "m < v"
  shows "(a_average_heart_rate attrs = None \<or> a_max_heart_rate attrs = None \<longrightarrow>
            ActivitySerializer_validate attrs = Inr attrs)
       \<and> (\<exists>a store'. ActivityDetailView_update True (Some u) k
                        (no_attrs\<lparr>a_average_heart_rate := Some (Some v)\<rparr>) store = (Inr a, store')
             \<and> a \<in> set store' \<and> pk a = k
             \<and> average_heart_rate a = Some v \<and> max_heart_rate a = Some m \<and> m < v)"
proof -
  let ?attrs = "no_attrs\<lparr>a_average_heart_rate := Some (Some v)\<rparr>"
  let ?r = "Activity_save (with_date (DateValue (date inst)) (inst\<lparr>average_heart_rate := Some v\<rparr>)) store"
  have v: "a_average_heart_rate attrs = None \<or> a_max_heart_rate attrs = None \<longrightarrow>
            ActivitySerializer_validate attrs = Inr attrs"
    by (auto simp: ActivitySerializer_validate_def attrs_get_def truthy_int_def)
  have u: "ActivityDetailView_update True (Some u) k ?attrs store
             = (Inr (row_of (fst ?r)), snd ?r)"
    by (simp add: ActivityDetailView_update_def get_object_one(1) [OF assms(1)]
        only_average_valid [OF assms(3,4)] ModelSerializer_update_def setattrs_only_average
        case_prod_beta Let_def)
  have "row_of (fst ?r) \<in> set (snd ?r)" by (rule Activity_save_stored)
  moreover have "pk (row_of (fst ?r)) = k"
    by (simp add: row_of_fields Activity_save_keeps with_date_def get_object_one(3) [OF assms(1)])
  moreover have "average_heart_rate (row_of (fst ?r)) = Some v"
    "max_heart_rate (row_of (fst ?r)) = Some m"
    by (simp_all add: row_of_fields Activity_save_keeps with_date_def assms(2))
  ultimately show ?thesis using v u assms(5) by blast
qed

theorem partial_update_ignores_stored_heart_rate_witness:
  "ActivitySerializer_validate (no_attrs\<lparr>a_average_heart_rate := Some (Some 200)\<rparr>)
     = Inr (no_attrs\<lparr>a_average_heart_rate := Some (Some 200)\<rparr>)
   \<and> (\<exists>a store'. ActivityDetailView_update True (Some 1) 1
          (no_attrs\<lparr>a_average_heart_rate := Some (Some 200)\<rparr>) ex_store = (Inr a, store')
        \<and> a \<in> set store' \<and> average_heart_rate a = Some 200 \<and> max_heart_rate a = Some 100)"
proof -
  have 1: "filter (\<lambda>a. pk a = 1) (get_queryset 1 ex_store) = [ex_ride]"
    by (simp add: get_queryset_def example_defs)
  have 2: "max_heart_rate ex_ride = Some 100" by (simp add: ex_ride_def)
  have 3: "a_max_heart_rate (no_attrs\<lparr>a_average_heart_rate := Some (Some 200)\<rparr>) = None"
    by (simp add: no_attrs_def)
  from partial_update_ignores_stored_heart_rate [OF 1 2, of 200
         "no_attrs\<lparr>a_average_heart_rate := Some (Some 200)\<rparr>"] 3
  show ?thesis by auto
qed

section \<open>Averages and totals\<close>

text \<open>
  C10, as amended. In the summary, the totals of distance and calories count a missing
  value as 0, and the two averages are the rounded mean over the activities that have
  the value (0 when none has it, or when the mean is 0). So the average distance is
  the total distance divided by the number of activities that have a distance, rounded
  to two places, and for a non-empty set with a missing value it need not be the total
  distance divided by the number of activities: for a ride of 5 km and a gym session
  without distance the average is 5 and the quotient is 5/2.
\<close>

theorem averages_skip_missing:
  "total_distance (summary_data ar qs) = (\<Sum>a\<leftarrow>qs. case distance a of None \<Rightarrow> 0 | Some d \<Rightarrow> d)
   \<and> total_calories (summary_data ar qs)
       = (\<Sum>a\<leftarrow>qs. case calories_burned a of None \<Rightarrow> 0 | Some c \<Rightarrow> c)
   \<and> average_distance (summary_data ar qs) =
       (let present = filter (\<lambda>a. distance a \<noteq> None) qs
        in if present = [] then 0
           else round2_rat ((\<Sum>a\<leftarrow>present. the (distance a)) / of_nat (length present)))
   \<and> average_calories (summary_data ar qs) =
       (let present = filter (\<lambda>a. calories_burned a \<noteq> None) qs;
            mean = avg_integer ar (map (\<lambda>a. the (calories_burned a)) present)
        in if present = [] \<or> mean = 0 then 0 else round_float ar mean)
   \<and> (filter (\<lambda>a. distance a \<noteq> None) qs \<noteq> [] \<longrightarrow>
        average_distance (summary_data ar qs) =
          round2_rat (total_distance (summary_data ar qs)
                      / of_nat (length (filter (\<lambda>a. distance a \<noteq> None) qs))))
   \<and> distance ex_lift = None
   \<and> average_distance (summary_data ar [ex_ride, ex_lift]) = 5
   \<and> total_distance (summary_data ar [ex_ride, ex_lift])
        / of_int (total_activities (summary_data ar [ex_ride, ex_lift])) = 5 / 2"
proof (intro conjI)
  show "total_distance (summary_data ar qs)
          = (\<Sum>a\<leftarrow>qs. case distance a of None \<Rightarrow> 0 | Some d \<Rightarrow> d)"
    by (simp add: total_distance_eq sum_list_non_null comp_def)
  show "total_calories (summary_data ar qs)
          = (\<Sum>a\<leftarrow>qs. case calories_burned a of None \<Rightarrow> 0 | Some c \<Rightarrow> c)"
    by (simp add: total_calories_eq sum_list_non_null comp_def)
  show "average_distance (summary_data ar qs) =
       (let present = filter (\<lambda>a. distance a \<noteq> None) qs
        in if present = [] then 0
           else round2_rat ((\<Sum>a\<leftarrow>present. the (distance a)) / of_nat (length present)))"
    by (simp add: average_distance_eq non_null_map Let_def)
  show "average_calories (summary_data ar qs) =
       (let present = filter (\<lambda>a. calories_burned a \<noteq> None) qs;
            mean = avg_integer ar (map (\<lambda>a. the (calories_burned a)) present)
        in if present = [] \<or> mean = 0 then 0 else round_float ar mean)"
    by (simp add: average_calories_eq non_null_map Let_def)
  show "filter (\<lambda>a. distance a \<noteq> None) qs \<noteq> [] \<longrightarrow>
        average_distance (summary_data ar qs) =
          round2_rat (total_distance (summary_data ar qs)
                      / of_nat (length (filter (\<lambda>a. distance a \<noteq> None) qs)))"
    by (simp add: average_distance_eq total_distance_eq non_null_map)
  show "distance ex_lift = None" by (simp add: ex_lift_def)
  have d: "non_null (map distance [ex_ride, ex_lift]) = [5]"
    by (simp add: ex_ride_def ex_lift_def)
  show "average_distance (summary_data ar [ex_ride, ex_lift]) = 5"
    unfolding average_distance_eq d by (simp add: round2_rat_def round_half_even_def)
  show "total_distance (summary_data ar [ex_ride, ex_lift])
        / of_int (total_activities (summary_data ar [ex_ride, ex_lift])) = 5 / 2"
    unfolding total_distance_eq total_activities_eq d by simp
qed

theorem averages_skip_missing_witness:
  "filter (\<lambda>a. distance a \<noteq> None) [ex_ride, ex_lift] \<noteq> []
   \<and> total_distance (summary_data exact_arith [ex_ride, ex_lift]) = 5
   \<and> average_distance (summary_data exact_arith [ex_ride, ex_lift]) = 5
   \<and> average_calories (summary_data exact_arith [ex_ride, ex_lift]) = 300"
proof -
  have d: "distance ex_ride = Some 5" "distance ex_lift = None"
    "calories_burned ex_ride = Some 300" "calories_burned ex_lift = None"
    by (simp_all add: ex_ride_def ex_lift_def)
  have p: "filter (\<lambda>a. distance a \<noteq> None) [ex_ride, ex_lift] = [ex_ride]"
    "filter (\<lambda>a. calories_burned a \<noteq> None) [ex_ride, ex_lift] = [ex_ride]"
    by (simp_all add: d)
  note t = averages_skip_missing [of exact_arith "[ex_ride, ex_lift]"]
  from t have td: "total_distance (summary_data exact_arith [ex_ride, ex_lift]) = 5"
    by (simp add: d)
  from t have "filter (\<lambda>a. distance a \<noteq> None) [ex_ride, ex_lift] \<noteq> [] \<longrightarrow>
        average_distance (summary_data exact_arith [ex_ride, ex_lift]) =
          round2_rat (total_distance (summary_data exact_arith [ex_ride, ex_lift])
                      / of_nat (length (filter (\<lambda>a. distance a \<noteq> None) [ex_ride, ex_lift])))"
    by blast
  then have ad: "average_distance (summary_data exact_arith [ex_ride, ex_lift]) = 5"
    unfolding p td by (simp add: round2_rat_def round_half_even_def)
  from t have ac: "average_calories (summary_data exact_arith [ex_ride, ex_lift]) = 300"
    by (simp add: p d Let_def exact_arith_def round2_rat_def round_half_even_def)
  from p td ad ac show ?thesis by simp
qed

text \<open>
  C10 as written does not hold for every non-empty set with a missing value: for the
  single gym session, which has no distance, the average distance and the total
  distance divided by the number of activities are both 0.
\<close>

theorem average_equals_total_over_count_counterexample:
  "distance ex_lift = None
   \<and> total_activities (summary_data exact_arith [ex_lift]) = 1
   \<and> average_distance (summary_data exact_arith [ex_lift])
       = total_distance (summary_data exact_arith [ex_lift])
           / of_int (total_activities (summary_data exact_arith [ex_lift]))"
  by (simp add: total_activities_eq total_distance_eq average_distance_eq ex_lift_def)

end
